theory Spec2Isabelle
  imports Complex_Main
begin

section \<open>Python values used by the rota generator\<close>

text \<open>
  Exceptions of the program are values: \<open>ValueError\<close> and \<open>RuntimeError\<close> carry their
  message, \<open>IndexError\<close> is what a list read past its end raises, \<open>OverflowError\<close>
  what \<open>math.ceil\<close> of an infinite float raises. \<open>ReadError\<close> stands for whatever
  \<open>open\<close> or the csv reader raises (\<open>OSError\<close>, \<open>UnicodeDecodeError\<close>, \<open>csv.Error\<close>),
  with the name of its class.
\<close>

datatype error =
    ValueError string
  | RuntimeError string
  | IndexError
  | OverflowError
  | ReadError string

text \<open>
  A Python \<open>str\<close> is the list of its code points. \<open>lit\<close> turns a literal of the
  program, written here as an Isabelle string, into one.
\<close>

type_synonym pystr = "int list"

definition lit :: "string \<Rightarrow> pystr" where
  "lit s = map of_char s"

text \<open>
  What \<open>str.strip\<close> and \<open>int\<close> do with a character above ASCII depends on the Unicode
  database of the interpreter, which is not part of the program: it is a parameter, a
  table that gives every code point from 128 on its class. A white-space character is
  \<open>USpace\<close>, a decimal digit (category Nd) is \<open>UDecimal\<close> with its value.
\<close>

datatype uclass = USpace | UDecimal nat | UOther

type_synonym ucd = "int \<Rightarrow> uclass"

text \<open>
  \<open>str.isspace\<close> of one character, as \<open>str.strip()\<close> uses it: in ASCII these are
  TAB..CR, FS..US and the blank.
\<close>

definition str_isspace :: "ucd \<Rightarrow> int \<Rightarrow> bool" where
  "str_isspace U c \<longleftrightarrow>
     (if c < 128 then c \<in> {9, 10, 11, 12, 13, 28, 29, 30, 31, 32} else U c = USpace)"

text \<open>
  The white space that \<open>int\<close> itself skips around a literal: in ASCII only TAB..CR and
  the blank (\<open>int('\x1c1')\<close> is an error), above ASCII every white-space character.
\<close>

definition int_isspace :: "ucd \<Rightarrow> int \<Rightarrow> bool" where
  "int_isspace U c \<longleftrightarrow> (if c < 128 then c \<in> {9, 10, 11, 12, 13, 32} else U c = USpace)"

text \<open>The value of a decimal digit: \<open>0\<close>..\<open>9\<close> in ASCII, the table's word above.\<close>

definition decimal :: "ucd \<Rightarrow> int \<Rightarrow> int option" where
  "decimal U c =
     (if c < 128 then (if 48 \<le> c \<and> c \<le> 57 then Some (c - 48) else None)
      else case U c of UDecimal d \<Rightarrow> Some (int d) | _ \<Rightarrow> None)"

definition strip_with :: "(int \<Rightarrow> bool) \<Rightarrow> pystr \<Rightarrow> pystr" where
  "strip_with sp s = rev (dropWhile sp (rev (dropWhile sp s)))"

definition py_strip :: "ucd \<Rightarrow> pystr \<Rightarrow> pystr" where
  "py_strip U s = strip_with (str_isspace U) s"

text \<open>
  The digit part of an integer literal: digits, and single underscores (code point 95)
  only between two digits.
\<close>

fun digits_ok :: "ucd \<Rightarrow> pystr \<Rightarrow> bool" where
  "digits_ok U [] = False"
| "digits_ok U [c] = (decimal U c \<noteq> None)"
| "digits_ok U (c # d # cs) =
     (decimal U c \<noteq> None \<and> (if d = 95 then digits_ok U cs else digits_ok U (d # cs)))"

text \<open>The value is accumulated digit by digit; an underscore leaves it as it is.\<close>

definition digit_step :: "ucd \<Rightarrow> int \<Rightarrow> int \<Rightarrow> int" where
  "digit_step U acc c = (case decimal U c of None \<Rightarrow> acc | Some d \<Rightarrow> 10 * acc + d)"

definition digits_value :: "ucd \<Rightarrow> pystr \<Rightarrow> int" where
  "digits_value U s = foldl (digit_step U) 0 s"

definition digit_count :: "ucd \<Rightarrow> pystr \<Rightarrow> int" where
  "digit_count U s = int (length (filter (\<lambda>c. decimal U c \<noteq> None) s))"

text \<open>
  \<open>sys.get_int_max_str_digits()\<close>: since CPython 3.11 a decimal literal with more digit
  characters than this (leading zeros count, underscores and the sign do not) is a
  \<open>ValueError\<close>.
\<close>

definition int_max_str_digits :: int where
  "int_max_str_digits = 4300"

text \<open>
  \<open>int(s)\<close> on a string, base 10; \<open>None\<close> stands for the \<open>ValueError\<close>. After the
  white space around it, a literal is one optional sign (\<open>+\<close> is 43, \<open>-\<close> is 45) and the
  digit part.
\<close>

definition int_literal :: "ucd \<Rightarrow> pystr \<Rightarrow> int option" where
  "int_literal U t =
     (case t of
        [] \<Rightarrow> None
      | c # cs \<Rightarrow>
          let body = (if c = 43 \<or> c = 45 then cs else t)
          in if digits_ok U body \<and> digit_count U body \<le> int_max_str_digits
             then Some (if c = 45 then - digits_value U body else digits_value U body)
             else None)"

definition py_int :: "ucd \<Rightarrow> pystr \<Rightarrow> int option" where
  "py_int U s = int_literal U (strip_with (int_isspace U) s)"

section \<open>Loading employees\<close>

text \<open>
  A row of \<open>csv.DictReader\<close> is a dictionary from column names to strings. It is kept
  as the list of its items; a column that the row does not have (or whose value is
  \<open>None\<close>) is an absent key, so \<open>row.get(k)\<close> is \<open>map_of\<close>.
\<close>

type_synonym row = "(pystr \<times> pystr) list"

definition row_get :: "row \<Rightarrow> string \<Rightarrow> pystr option" where
  "row_get r k = map_of r (lit k)"

text \<open>\<open>not v\<close> for the result of \<open>row.get\<close>: \<open>None\<close> and the empty string are falsy.\<close>

definition py_not :: "pystr option \<Rightarrow> bool" where
  "py_not v \<longleftrightarrow> v = None \<or> v = Some []"

text \<open>\<open>v or ""\<close> for the result of \<open>row.get\<close>.\<close>

definition or_empty :: "pystr option \<Rightarrow> pystr" where
  "or_empty v = (case v of None \<Rightarrow> [] | Some s \<Rightarrow> s)"

text \<open>
  Opening the file and iterating over the reader is outside the program. What the loop
  sees of it is a sequence of events: the next row, or an exception (the failure of
  \<open>open\<close> is an exception before any row).
\<close>

datatype read_event = Row row | Raises error

text \<open>
  The first loop of \<open>load_employees\<close>: every row must have a non-empty \<open>emp_id\<close> and
  \<open>employee_name\<close>; the first row without them raises.
\<close>

definition missing_required :: "row \<Rightarrow> bool" where
  "missing_required r \<longleftrightarrow> py_not (row_get r ''emp_id'') \<or> py_not (row_get r ''employee_name'')"

fun read_rows :: "row list \<Rightarrow> read_event list \<Rightarrow> error + row list" where
  "read_rows employees [] = Inr employees"
| "read_rows employees (Raises err # evs) = Inl err"
| "read_rows employees (Row r # evs) =
     (if missing_required r
      then Inl (ValueError ''employees.csv must contain emp_id and employee_name'')
      else read_rows (employees @ [r]) evs)"

text \<open>
  The body of the \<open>try\<close>: the stripped \<open>starting_shift\<close> is parsed and must be 1, 2 or 3;
  \<open>None\<close> is the \<open>ValueError\<close> that the \<open>except\<close> clause catches.
\<close>

definition try_start_shift :: "ucd \<Rightarrow> row \<Rightarrow> int option" where
  "try_start_shift U emp =
     (let raw = py_strip U (or_empty (row_get emp ''starting_shift''))
      in case py_int U raw of
           None \<Rightarrow> None
         | Some s \<Rightarrow> if s \<in> {1, 2, 3} then Some s else None)"

text \<open>
  The second loop, with its two mutable variables \<open>start_shifts\<close> and \<open>cur\<close>. The shift
  is stored 0-based.
\<close>

fun shift_loop :: "ucd \<Rightarrow> int list \<Rightarrow> int \<Rightarrow> row list \<Rightarrow> int list" where
  "shift_loop U start_shifts cur [] = start_shifts"
| "shift_loop U start_shifts cur (emp # emps) =
     (case try_start_shift U emp of
        Some s \<Rightarrow> shift_loop U (start_shifts @ [s - 1]) cur emps
      | None \<Rightarrow> shift_loop U (start_shifts @ [cur - 1]) (1 + cur mod 3) emps)"

definition load_employees :: "ucd \<Rightarrow> read_event list \<Rightarrow> error + (row list \<times> int list)" where
  "load_employees U csv =
     (case read_rows [] csv of
        Inl err \<Rightarrow> Inl err
      | Inr employees \<Rightarrow>
          if employees = [] then Inl (ValueError ''employees.csv is empty'')
          else Inr (employees, shift_loop U [] 1 employees))"

section \<open>What a starting shift is, in the words of the specification\<close>

text \<open>
  A decimal numeral, read from the left: a digit, then digits each optionally preceded by
  one underscore. \<open>dec_numeral U b v k\<close>: the string \<open>b\<close> is such a numeral, its value is
  \<open>v\<close> and it has \<open>k\<close> digits.
\<close>

inductive dec_numeral :: "ucd \<Rightarrow> pystr \<Rightarrow> int \<Rightarrow> int \<Rightarrow> bool" for U where
  first: "decimal U c = Some d \<Longrightarrow> dec_numeral U [c] d 1"
| digit: "dec_numeral U b v k \<Longrightarrow> decimal U c = Some d \<Longrightarrow> dec_numeral U (b @ [c]) (10 * v + d) (k + 1)"
| under: "dec_numeral U b v k \<Longrightarrow> decimal U c = Some d \<Longrightarrow>
            dec_numeral U (b @ [95, c]) (10 * v + d) (k + 1)"

text \<open>
  A signed numeral: at most one sign (\<open>+\<close> is 43, \<open>-\<close> is 45) and a numeral of at most
  4300 digits. A field is numeric with value \<open>n\<close> when, between white space, it is a
  signed numeral of value \<open>n\<close>.
\<close>

definition signed :: "ucd \<Rightarrow> pystr \<Rightarrow> int \<Rightarrow> bool" where
  "signed U t n \<longleftrightarrow>
     (\<exists>sign b v k.
        t = sign @ b \<and> (sign = [] \<or> sign = [43] \<or> sign = [45])
      \<and> dec_numeral U b v k \<and> k \<le> 4300
      \<and> n = (if sign = [45] then - v else v))"

definition numeric :: "ucd \<Rightarrow> pystr \<Rightarrow> int \<Rightarrow> bool" where
  "numeric U field n \<longleftrightarrow>
     (\<exists>ws1 t ws2.
        field = ws1 @ t @ ws2
      \<and> list_all (str_isspace U) ws1 \<and> list_all (str_isspace U) ws2
      \<and> signed U t n)"

definition shift_missing :: "row \<Rightarrow> bool" where
  "shift_missing emp \<longleftrightarrow> row_get emp ''starting_shift'' = None"

definition shift_non_numeric :: "ucd \<Rightarrow> row \<Rightarrow> bool" where
  "shift_non_numeric U emp \<longleftrightarrow>
     (\<exists>field. row_get emp ''starting_shift'' = Some field \<and> \<not> (\<exists>n. numeric U field n))"

definition shift_out_of_range :: "ucd \<Rightarrow> row \<Rightarrow> bool" where
  "shift_out_of_range U emp \<longleftrightarrow>
     (\<exists>field n. row_get emp ''starting_shift'' = Some field \<and> numeric U field n
        \<and> n \<notin> {1, 2, 3})"

definition needs_fallback :: "ucd \<Rightarrow> row \<Rightarrow> bool" where
  "needs_fallback U emp \<longleftrightarrow>
     shift_missing emp \<or> shift_non_numeric U emp \<or> shift_out_of_range U emp"

definition valid_shift :: "ucd \<Rightarrow> row \<Rightarrow> int \<Rightarrow> bool" where
  "valid_shift U emp s \<longleftrightarrow>
     (\<exists>field. row_get emp ''starting_shift'' = Some field \<and> numeric U field s)
     \<and> s \<in> {1, 2, 3}"

text \<open>The number of employees before position \<open>i\<close> that need the fallback.\<close>

definition fallbacks_before :: "ucd \<Rightarrow> row list \<Rightarrow> nat \<Rightarrow> nat" where
  "fallbacks_before U rows i = length (filter (needs_fallback U) (take i rows))"

section \<open>Floating point: \<open>math.ceil(max_off_pct * E)\<close>\<close>

text \<open>
  A finite double is kept as the rational number it denotes. The product of two doubles
  is the exact product rounded to 53 significant bits, ties to even; \<open>E\<close>, a Python
  integer, is converted to a double (rounded the same way) first. A product of magnitude
  \<open>2^1024\<close> or more becomes infinite, and \<open>math.ceil\<close> of an infinite value raises
  \<open>OverflowError\<close>. NaN and infinite arguments are outside the type.
\<close>

function bit_length :: "int \<Rightarrow> int" where
  "bit_length n = (if n \<le> 0 then 0 else 1 + bit_length (n div 2))"
  by pat_completeness auto
termination
  by (relation "measure nat") auto

declare bit_length.simps [simp del]

definition pow2 :: "int \<Rightarrow> rat" where
  "pow2 k = (if 0 \<le> k then 2 ^ nat k else 1 / 2 ^ nat (- k))"

text \<open>For \<open>x > 0\<close>: the \<open>e\<close> with \<open>2^e \<le> x < 2^(e+1)\<close>.\<close>

definition binade :: "rat \<Rightarrow> int" where
  "binade x =
     (let (p, q) = quotient_of x;
          k = bit_length p - bit_length q
      in if pow2 k \<le> x then k else k - 1)"

definition round_half_even :: "rat \<Rightarrow> int" where
  "round_half_even y =
     (let f = \<lfloor>y\<rfloor>; r = y - of_int f
      in if r < 1 / 2 then f else if 1 / 2 < r then f + 1 else if even f then f else f + 1)"

definition fl :: "rat \<Rightarrow> rat" where
  "fl x =
     (if x = 0 then 0
      else let a = \<bar>x\<bar>; e = binade a - 52; m = round_half_even (a / pow2 e)
           in sgn x * of_int m * pow2 e)"

definition py_ceil_mul :: "rat \<Rightarrow> nat \<Rightarrow> error + int" where
  "py_ceil_mul max_off_pct E =
     (let prod = fl (max_off_pct * fl (of_nat E))
      in if pow2 1024 \<le> \<bar>prod\<bar> \<or> pow2 1024 \<le> fl (of_nat E) then Inl OverflowError
         else Inr \<lceil>prod\<rceil>)"

section \<open>Weekly off patterns\<close>

text \<open>
  A date is its proleptic Gregorian ordinal (day 1 is Monday 0001-01-01), so that
  \<open>timedelta(days=1)\<close> adds 1 and \<open>weekday()\<close> is 0 on Mondays.
\<close>

type_synonym date = int

definition weekday :: "date \<Rightarrow> int" where
  "weekday dt = (dt + 6) mod 7"

function daterange :: "date \<Rightarrow> date \<Rightarrow> date list" where
  "daterange d stop = (if d \<le> stop then d # daterange (d + 1) stop else [])"
  by pat_completeness auto
termination
  by (relation "measure (\<lambda>(d, stop). nat (stop + 1 - d))") auto

declare daterange.simps [simp del]

definition OFF_PATTERNS :: "(int \<times> int) list" where
  "OFF_PATTERNS = [(5, 6), (6, 0), (0, 1), (1, 2), (2, 3), (3, 4), (4, 5)]"

definition assign_patterns :: "nat \<Rightarrow> nat list" where
  "assign_patterns num_employees =
     (let P = length OFF_PATTERNS in map (\<lambda>i. i mod P) [0..<num_employees])"

definition compute_off_matrix :: "nat \<Rightarrow> date list \<Rightarrow> nat list \<Rightarrow> int list list" where
  "compute_off_matrix num_employees dates team_of_emp =
     map (\<lambda>e. let (off1, off2) = OFF_PATTERNS ! (team_of_emp ! e)
              in map (\<lambda>dt. let wd = weekday dt
                           in if wd = off1 \<or> wd = off2 then 1 else 0) dates)
         [0..<num_employees]"

section \<open>The constraint model\<close>

text \<open>
  Every \<open>NewBoolVar\<close> and \<open>NewIntVar\<close> of \<open>solve\<close> creates a fresh variable; the
  constructors follow the names the program gives them.
\<close>

datatype var =
    X nat nat nat
  | DayTot nat nat
  | DayDiff nat nat nat
  | EmpTot nat nat
  | EmpDiff nat nat nat
  | Match nat nat
  | RotPen nat nat

datatype linexpr =
    LConst int
  | LVar var
  | LSum "linexpr list"
  | LAdd linexpr linexpr
  | LSub linexpr linexpr
  | LMul int linexpr

text \<open>
  \<open>model.Add\<close> of a comparison of linear expressions, \<open>model.Add\<close> of a Python
  \<open>bool\<close> (what a comparison of two plain integers is), and \<open>model.AddAbsEquality\<close>.
\<close>

datatype constraint =
    CEq linexpr linexpr
  | CLe linexpr linexpr
  | CGe linexpr linexpr
  | CBool bool
  | CAbsEq linexpr linexpr

record cp_model =
  variables :: "(var \<times> int \<times> int) list"
  constraints :: "constraint list"
  objective :: linexpr

fun lin_value :: "(var \<Rightarrow> int) \<Rightarrow> linexpr \<Rightarrow> int" where
  "lin_value v (LConst c) = c"
| "lin_value v (LVar x) = v x"
| "lin_value v (LSum es) = sum_list (map (lin_value v) es)"
| "lin_value v (LAdd a b) = lin_value v a + lin_value v b"
| "lin_value v (LSub a b) = lin_value v a - lin_value v b"
| "lin_value v (LMul c a) = c * lin_value v a"

fun holds :: "(var \<Rightarrow> int) \<Rightarrow> constraint \<Rightarrow> bool" where
  "holds v (CEq a b) \<longleftrightarrow> lin_value v a = lin_value v b"
| "holds v (CLe a b) \<longleftrightarrow> lin_value v a \<le> lin_value v b"
| "holds v (CGe a b) \<longleftrightarrow> lin_value v a \<ge> lin_value v b"
| "holds v (CBool b) \<longleftrightarrow> b"
| "holds v (CAbsEq t a) \<longleftrightarrow> lin_value v t = \<bar>lin_value v a\<bar>"

definition in_domain :: "(var \<Rightarrow> int) \<Rightarrow> var \<times> int \<times> int \<Rightarrow> bool" where
  "in_domain v decl = (case decl of (x, lo, hi) \<Rightarrow> lo \<le> v x \<and> v x \<le> hi)"

definition satisfies :: "cp_model \<Rightarrow> (var \<Rightarrow> int) \<Rightarrow> bool" where
  "satisfies m v \<longleftrightarrow> list_all (in_domain v) (variables m) \<and> list_all (holds v) (constraints m)"

section \<open>Building the model\<close>

definition S :: nat where
  "S = 3"

text \<open>The pairs \<open>(i, j)\<close> of \<open>for i in range(S): for j in range(i + 1, S)\<close>.\<close>

definition shift_pairs :: "(nat \<times> nat) list" where
  "shift_pairs = concat (map (\<lambda>i. map (\<lambda>j. (i, j)) [i + 1..<S]) [0..<S])"

text \<open>The decision variables \<open>x[e][d][s]\<close>, all Boolean.\<close>

definition x_vars :: "nat \<Rightarrow> nat \<Rightarrow> (var \<times> int \<times> int) list" where
  "x_vars E D =
     concat (map (\<lambda>e. concat (map (\<lambda>d. map (\<lambda>s. (X e d s, 0, 1)) [0..<S]) [0..<D])) [0..<E])"

text \<open>1) Daily assignment with fixed offs.\<close>

definition cons_daily :: "nat \<Rightarrow> nat \<Rightarrow> int list list \<Rightarrow> constraint list" where
  "cons_daily E D off =
     concat (map (\<lambda>e. concat (map (\<lambda>d.
        if off ! e ! d = 1
        then map (\<lambda>s. CEq (LVar (X e d s)) (LConst 0)) [0..<S]
        else [CEq (LSum (map (\<lambda>s. LVar (X e d s)) [0..<S])) (LConst 1)]) [0..<D])) [0..<E])"

text \<open>2) No shift change between two consecutive working days.\<close>

definition cons_continuity :: "nat \<Rightarrow> nat \<Rightarrow> int list list \<Rightarrow> constraint list" where
  "cons_continuity E D off =
     concat (map (\<lambda>e. concat (map (\<lambda>d.
        if off ! e ! d = 0 \<and> off ! e ! (d + 1) = 0
        then map (\<lambda>s. CEq (LVar (X e d s)) (LVar (X e (d + 1) s))) [0..<S]
        else []) [0..<D - 1])) [0..<E])"

text \<open>
  3) Per-day cap on offs. Both sides are plain integers, so the comparison is a
  Python \<open>bool\<close> before it reaches the model.
\<close>

definition cons_off_cap :: "nat \<Rightarrow> nat \<Rightarrow> int list list \<Rightarrow> int \<Rightarrow> constraint list" where
  "cons_off_cap E D off max_off =
     map (\<lambda>d. CBool (sum_list (map (\<lambda>e. off ! e ! d) [0..<E]) \<le> max_off)) [0..<D]"

text \<open>4) Coverage of every shift on every day.\<close>

definition cons_coverage :: "nat \<Rightarrow> nat \<Rightarrow> int \<Rightarrow> constraint list" where
  "cons_coverage E D min_per_shift =
     concat (map (\<lambda>d. map (\<lambda>s.
        CGe (LSum (map (\<lambda>e. LVar (X e d s)) [0..<E])) (LConst min_per_shift)) [0..<S]) [0..<D])"

text \<open>A) Day-wise shift balancing.\<close>

definition day_vars :: "nat \<Rightarrow> nat \<Rightarrow> (var \<times> int \<times> int) list" where
  "day_vars E D =
     concat (map (\<lambda>d. map (\<lambda>s. (DayTot d s, 0, int E)) [0..<S]
                        @ map (\<lambda>(i, j). (DayDiff d i j, 0, int E)) shift_pairs) [0..<D])"

definition cons_day_balance :: "nat \<Rightarrow> nat \<Rightarrow> constraint list" where
  "cons_day_balance E D =
     concat (map (\<lambda>d.
        map (\<lambda>s. CEq (LVar (DayTot d s)) (LSum (map (\<lambda>e. LVar (X e d s)) [0..<E]))) [0..<S]
        @ map (\<lambda>(i, j). CAbsEq (LVar (DayDiff d i j))
                            (LSub (LVar (DayTot d i)) (LVar (DayTot d j)))) shift_pairs)
        [0..<D])"

definition day_diff_vars :: "nat \<Rightarrow> linexpr list" where
  "day_diff_vars D =
     concat (map (\<lambda>d. map (\<lambda>(i, j). LVar (DayDiff d i j)) shift_pairs) [0..<D])"

text \<open>B) Per-employee usage of shifts.\<close>

definition emp_vars :: "nat \<Rightarrow> nat \<Rightarrow> (var \<times> int \<times> int) list" where
  "emp_vars E D =
     concat (map (\<lambda>e. map (\<lambda>s. (EmpTot e s, 0, int D)) [0..<S]
                        @ map (\<lambda>(i, j). (EmpDiff e i j, 0, int D)) shift_pairs) [0..<E])"

definition cons_emp_balance :: "nat \<Rightarrow> nat \<Rightarrow> constraint list" where
  "cons_emp_balance E D =
     concat (map (\<lambda>e.
        map (\<lambda>s. CEq (LVar (EmpTot e s)) (LSum (map (\<lambda>d. LVar (X e d s)) [0..<D]))) [0..<S]
        @ map (\<lambda>(i, j). CAbsEq (LVar (EmpDiff e i j))
                            (LSub (LVar (EmpTot e i)) (LVar (EmpTot e j)))) shift_pairs)
        [0..<E])"

definition emp_diff_vars :: "nat \<Rightarrow> linexpr list" where
  "emp_diff_vars E =
     concat (map (\<lambda>e. map (\<lambda>(i, j). LVar (EmpDiff e i j)) shift_pairs) [0..<E])"

text \<open>
  C) 28-day rotation. \<open>start_shifts\<close> holds 0-based shifts; \<open>%\<close> on Python integers is
  the floor modulus, as \<open>mod\<close> on \<open>int\<close> is.
\<close>

definition target_shift :: "int list \<Rightarrow> nat \<Rightarrow> nat \<Rightarrow> nat" where
  "target_shift start_shifts e d =
     (let start_s = start_shifts ! e; block = d div 28
      in nat ((start_s + int block) mod int S))"

definition rot_vars :: "nat \<Rightarrow> nat \<Rightarrow> (var \<times> int \<times> int) list" where
  "rot_vars E D =
     concat (map (\<lambda>e. concat (map (\<lambda>d. [(Match e d, 0, 1), (RotPen e d, 0, 1)]) [0..<D]))
       [0..<E])"

definition cons_rotation :: "nat \<Rightarrow> nat \<Rightarrow> int list list \<Rightarrow> int list \<Rightarrow> constraint list" where
  "cons_rotation E D off start_shifts =
     concat (map (\<lambda>e. concat (map (\<lambda>d.
        [if off ! e ! d = 0
         then CEq (LVar (Match e d)) (LVar (X e d (target_shift start_shifts e d)))
         else CEq (LVar (Match e d)) (LConst 1),
         CEq (LVar (RotPen e d)) (LSub (LConst 1) (LVar (Match e d)))]) [0..<D])) [0..<E])"

definition rotation_mismatch :: "nat \<Rightarrow> nat \<Rightarrow> linexpr list" where
  "rotation_mismatch E D =
     concat (map (\<lambda>e. map (\<lambda>d. LVar (RotPen e d)) [0..<D]) [0..<E])"

text \<open>D) The objective, and the whole model as \<open>solve\<close> hands it to the solver.\<close>

definition build_model ::
  "nat \<Rightarrow> nat \<Rightarrow> int list list \<Rightarrow> int list \<Rightarrow> int \<Rightarrow> int \<Rightarrow> cp_model" where
  "build_model E D off start_shifts min_per_shift max_off =
     \<lparr> variables = x_vars E D @ day_vars E D @ emp_vars E D @ rot_vars E D,
       constraints =
         cons_daily E D off @ cons_continuity E D off @ cons_off_cap E D off max_off
         @ cons_coverage E D min_per_shift
         @ cons_day_balance E D @ cons_emp_balance E D @ cons_rotation E D off start_shifts,
       objective =
         LAdd (LAdd (LMul 10 (LSum (day_diff_vars D))) (LMul 5 (LSum (emp_diff_vars E))))
              (LMul 1 (LSum (rotation_mismatch E D))) \<rparr>"

section \<open>Solving and extracting the schedule\<close>

datatype cp_status = UNKNOWN | MODEL_INVALID | FEASIBLE | INFEASIBLE | OPTIMAL

text \<open>
  The solver is outside the program. It is a parameter of \<open>solve\<close>: given the value of
  \<open>max_time_in_seconds\<close> and the model, it answers with a status and with the values
  that \<open>solver.Value\<close> reads. What is known of it is its contract: an answer
  \<open>OPTIMAL\<close> or \<open>FEASIBLE\<close> comes with values that satisfy the model.
\<close>

type_synonym cp_solver = "rat \<Rightarrow> cp_model \<Rightarrow> cp_status \<times> (var \<Rightarrow> int)"


text \<open>\<open>str\<close> of a non-negative integer.\<close>

fun str :: "nat \<Rightarrow> string" where
  "str n = (if n < 10 then [char_of (48 + n)] else str (n div 10) @ [char_of (48 + n mod 10)])"

declare str.simps [simp del]

text \<open>The inner loop of the extraction: the first shift whose variable is 1.\<close>

definition assigned_s :: "(var \<Rightarrow> int) \<Rightarrow> nat \<Rightarrow> nat \<Rightarrow> nat option" where
  "assigned_s val e d =
     (case find (\<lambda>s. val (X e d s) = 1) [0..<S] of None \<Rightarrow> None | Some s \<Rightarrow> Some (s + 1))"

definition code_at :: "(var \<Rightarrow> int) \<Rightarrow> int list list \<Rightarrow> nat \<Rightarrow> nat \<Rightarrow> string" where
  "code_at val off e d =
     (if off ! e ! d = 1 then ''W''
      else case assigned_s val e d of None \<Rightarrow> ''W'' | Some a \<Rightarrow> str a)"

definition build_codes :: "(var \<Rightarrow> int) \<Rightarrow> int list list \<Rightarrow> nat \<Rightarrow> nat \<Rightarrow> string list list" where
  "build_codes val off E D = map (\<lambda>e. map (\<lambda>d. code_at val off e d) [0..<D]) [0..<E]"

text \<open>The rest matrix and the model of one call of \<open>solve\<close>.\<close>

definition solve_off :: "row list \<Rightarrow> date list \<Rightarrow> int list list" where
  "solve_off employees dates =
     (let E = length employees; team_of_emp = assign_patterns E
      in compute_off_matrix E dates team_of_emp)"

definition solve_model :: "row list \<Rightarrow> int list \<Rightarrow> date list \<Rightarrow> int \<Rightarrow> int \<Rightarrow> cp_model" where
  "solve_model employees start_shifts dates min_per_shift max_off =
     build_model (length employees) (length dates) (solve_off employees dates)
       start_shifts min_per_shift max_off"

text \<open>
  \<open>solve\<close>. Reading \<open>start_shifts[e]\<close> for an \<open>e\<close> past the end of the list raises
  \<open>IndexError\<close> while the model is built, after \<open>max_off\<close> has been computed.
\<close>

definition solve ::
  "cp_solver \<Rightarrow> row list \<Rightarrow> int list \<Rightarrow> date list \<Rightarrow> int \<Rightarrow> rat \<Rightarrow> error + string list list" where
  "solve solver employees start_shifts dates min_per_shift max_off_pct =
     (let E = length employees; D = length dates; off = solve_off employees dates
      in case py_ceil_mul max_off_pct E of
           Inl err \<Rightarrow> Inl err
         | Inr max_off \<Rightarrow>
             if length start_shifts < E then Inl IndexError
             else
               let model = solve_model employees start_shifts dates min_per_shift max_off;
                   (status, val) = solver 120 model
               in if status \<notin> {OPTIMAL, FEASIBLE}
                  then Inl (RuntimeError
                    ''No feasible rota found (check min_per_shift vs headcount).'')
                  else Inr (build_codes val off E D))"

section \<open>The run\<close>

text \<open>
  \<open>main\<close> from the date check on, with the command line and the configuration already
  parsed into their values. The schedule it hands to the spreadsheet writer is its result.
\<close>

definition main ::
  "ucd \<Rightarrow> cp_solver \<Rightarrow> date \<Rightarrow> date \<Rightarrow> int \<Rightarrow> rat \<Rightarrow> read_event list
     \<Rightarrow> error + string list list" where
  "main U solver start_date stop_date min_per_shift max_off_pct csv =
     (if stop_date < start_date then Inl (ValueError ''stop-date must be >= start-date'')
      else case load_employees U csv of
             Inl err \<Rightarrow> Inl err
           | Inr (employees, start_shifts) \<Rightarrow>
               solve solver employees start_shifts (daterange start_date stop_date)
                 min_per_shift max_off_pct)"

section \<open>The schedule in the words of the specification\<close>


text \<open>
  Counts read off a schedule: the employees with a given code on a day, and the days on
  which an employee has a given code. The code of shift 0, 1, 2 is \<open>1\<close>, \<open>2\<close>, \<open>3\<close>.
\<close>

definition count_on_day :: "string list list \<Rightarrow> nat \<Rightarrow> nat \<Rightarrow> string \<Rightarrow> int" where
  "count_on_day codes E d c = int (length (filter (\<lambda>e. codes ! e ! d = c) [0..<E]))"

definition count_of_emp :: "string list list \<Rightarrow> nat \<Rightarrow> nat \<Rightarrow> string \<Rightarrow> int" where
  "count_of_emp codes D e c = int (length (filter (\<lambda>d. codes ! e ! d = c) [0..<D]))"

definition shift_code :: "nat \<Rightarrow> string" where
  "shift_code s = (if s = 0 then ''1'' else if s = 1 then ''2'' else ''3'')"

definition headcount :: "string list list \<Rightarrow> nat \<Rightarrow> nat \<Rightarrow> nat \<Rightarrow> int" where
  "headcount codes E d s = count_on_day codes E d (shift_code s)"

definition shift_days :: "string list list \<Rightarrow> nat \<Rightarrow> nat \<Rightarrow> nat \<Rightarrow> int" where
  "shift_days codes D e s = count_of_emp codes D e (shift_code s)"




text \<open>
  The rotation mismatch of one cell: 1 on a working day whose shift is not the target
  \<open>(starting_shift + day_index div 28) mod 3\<close>, 0 otherwise. Shifts are 0-based here, as
  in \<open>start_shifts\<close>.
\<close>

definition rotation_mismatch_at :: "string list list \<Rightarrow> int list \<Rightarrow> nat \<Rightarrow> nat \<Rightarrow> int" where
  "rotation_mismatch_at codes start_shifts e d =
     (if codes ! e ! d \<noteq> ''W''
         \<and> codes ! e ! d \<noteq> shift_code (nat ((start_shifts ! e + int (d div 28)) mod 3))
      then 1 else 0)"



text \<open>The values of all variables of the model that a schedule stands for.\<close>

fun schedule_value :: "string list list \<Rightarrow> int list \<Rightarrow> nat \<Rightarrow> nat \<Rightarrow> var \<Rightarrow> int" where
  "schedule_value codes ss E D (X e d s) = (if codes ! e ! d = shift_code s then 1 else 0)"
| "schedule_value codes ss E D (DayTot d s) = headcount codes E d s"
| "schedule_value codes ss E D (DayDiff d i j) = \<bar>headcount codes E d i - headcount codes E d j\<bar>"
| "schedule_value codes ss E D (EmpTot e s) = shift_days codes D e s"
| "schedule_value codes ss E D (EmpDiff e i j) = \<bar>shift_days codes D e i - shift_days codes D e j\<bar>"
| "schedule_value codes ss E D (Match e d) = 1 - rotation_mismatch_at codes ss e d"
| "schedule_value codes ss E D (RotPen e d) = rotation_mismatch_at codes ss e d"

section \<open>Concrete inputs\<close>

text \<open>
  A fragment of a Unicode database: NEL, NBSP and EM SPACE are white space, the fullwidth
  digits U+FF10..U+FF19 are decimal digits.
\<close>

definition ucd_sample :: ucd where
  "ucd_sample c =
     (if c = 133 \<or> c = 160 \<or> c = 8195 then USpace
      else if 65296 \<le> c \<and> c \<le> 65305 then UDecimal (nat (c - 65296))
      else UOther)"

text \<open>Employee lists: one out-of-range starting shift, a mixed one, one without a name.\<close>

definition rows_with_nine :: "row list" where
  "rows_with_nine =
     [[(lit ''emp_id'', lit ''E1''), (lit ''employee_name'', lit ''Asha''),
       (lit ''starting_shift'', lit ''9'')]]"

definition mixed_rows :: "row list" where
  "mixed_rows =
     [[(lit ''emp_id'', lit ''E1''), (lit ''employee_name'', lit ''Asha''),
       (lit ''starting_shift'', lit ''2'')],
      [(lit ''emp_id'', lit ''E2''), (lit ''employee_name'', lit ''Bilal'')],
      [(lit ''emp_id'', lit ''E3''), (lit ''employee_name'', lit ''Chen''),
       (lit ''starting_shift'', lit ''1('')],
      [(lit ''emp_id'', lit ''E4''), (lit ''employee_name'', lit ''Dara''),
       (lit ''starting_shift'', [32, 43, 48, 95, 65299, 160])],
      [(lit ''emp_id'', lit ''E5''), (lit ''employee_name'', lit ''Emil''),
       (lit ''starting_shift'', lit ''0'')],
      [(lit ''emp_id'', lit ''E6''), (lit ''employee_name'', lit ''Finn''),
       (lit ''starting_shift'', lit ''9'')],
      [(lit ''emp_id'', lit ''E7''), (lit ''employee_name'', lit ''Gita''),
       (lit ''starting_shift'', [])],
      [(lit ''emp_id'', lit ''E8''), (lit ''employee_name'', lit ''Hana''),
       (lit ''starting_shift'', lit ''-1'')],
      [(lit ''emp_id'', lit ''E9''), (lit ''employee_name'', lit ''Ivan''),
       (lit ''starting_shift'', lit ''2_'')]]"

definition nameless_rows :: "row list" where
  "nameless_rows =
     [[(lit ''emp_id'', lit ''E1''), (lit ''employee_name'', lit ''Asha'')],
      [(lit ''emp_id'', lit ''E2''), (lit ''employee_name'', [])]]"


definition demo_start_shifts :: "int list" where
  "demo_start_shifts = [0, 1, 2, 0, 1]"


text \<open>The double nearest to 0.30, the default of \<open>max_off_pct\<close>.\<close>

definition float_0_30 :: rat where
  "float_0_30 = 5404319552844595 / 18014398509481984"


definition schedule_B :: "string list list" where
  "schedule_B =
     [[''1'', ''1'', ''1'', ''1''],
      [''2'', ''2'', ''2'', ''2''],
      [''W'', ''3'', ''3'', ''3''],
      [''W'', ''W'', ''1'', ''1''],
      [''3'', ''W'', ''W'', ''1'']]"






definition value_B :: "var \<Rightarrow> int" where
  "value_B = schedule_value schedule_B demo_start_shifts 5 4"




text \<open>
  A solver that knows one candidate: it answers \<open>FEASIBLE\<close> with it when it satisfies
  the model, and gives up otherwise.
\<close>

definition demo_solver :: cp_solver where
  "demo_solver t m = (if satisfies m value_B then FEASIBLE else UNKNOWN, value_B)"






section \<open>Properties of \<open>load_employees\<close>\<close>

subsection \<open>Stripping\<close>

lemma dropWhile_spaces:
  "list_all sp ws \<Longrightarrow> t = [] \<or> \<not> sp (hd t) \<Longrightarrow> dropWhile sp (ws @ t) = t"
  by (induction ws) (auto simp: dropWhile_eq_self_iff)

lemma strip_with_Nil: "strip_with sp [] = []"
  by (simp add: strip_with_def)

lemma strip_with_exact:
  assumes "list_all sp ws1" "list_all sp ws2" "t \<noteq> []" "\<not> sp (hd t)" "\<not> sp (last t)"
  shows "strip_with sp (ws1 @ t @ ws2) = t"
proof -
  have a: "dropWhile sp (ws1 @ t @ ws2) = t @ ws2"
    using dropWhile_spaces[OF assms(1), of "t @ ws2"] assms(3,4) by simp
  have "list_all sp (rev ws2)" using assms(2) by (simp add: list_all_iff)
  from dropWhile_spaces[OF this, of "rev t"]
  have "dropWhile sp (rev ws2 @ rev t) = rev t"
    using assms(3,5) by (simp add: hd_rev)
  then show ?thesis by (simp add: strip_with_def a)
qed

lemma strip_with_decompose:
  "\<exists>ws1 ws2. s = ws1 @ strip_with sp s @ ws2 \<and> list_all sp ws1 \<and> list_all sp ws2"
proof -
  let ?m = "dropWhile sp s"
  have 1: "s = takeWhile sp s @ ?m" by simp
  have 2: "rev ?m = takeWhile sp (rev ?m) @ dropWhile sp (rev ?m)" by simp
  then have "?m = rev (dropWhile sp (rev ?m)) @ rev (takeWhile sp (rev ?m))"
    by (metis rev_append rev_rev_ident)
  then have "s = takeWhile sp s @ strip_with sp s @ rev (takeWhile sp (rev ?m))"
    using 1 by (simp add: strip_with_def)
  moreover have "list_all sp (takeWhile sp s)"
    by (simp add: list_all_iff) (meson set_takeWhileD)
  moreover have "list_all sp (rev (takeWhile sp (rev ?m)))"
    by (simp add: list_all_iff) (meson set_takeWhileD)
  ultimately show ?thesis by blast
qed

lemma strip_with_ends:
  "strip_with sp s = [] \<or> (\<not> sp (hd (strip_with sp s)) \<and> \<not> sp (last (strip_with sp s)))"
proof (cases "strip_with sp s = []")
  case True
  then show ?thesis by simp
next
  case False
  let ?m = "dropWhile sp s"
  let ?r = "dropWhile sp (rev ?m)"
  have r: "?r \<noteq> []" using False by (simp add: strip_with_def)
  then have "\<not> sp (hd ?r)" by (rule hd_dropWhile)
  then have l: "\<not> sp (last (strip_with sp s))"
    using r by (simp add: strip_with_def last_rev)
  have m: "?m \<noteq> []"
    using r by (metis dropWhile.simps(1) rev.simps(1))
  then have hm: "\<not> sp (hd ?m)" by (rule hd_dropWhile)
  have "last (rev ?m) = hd ?m" using m by (simp add: last_rev)
  obtain pre where pre: "rev ?m = pre @ ?r"
    by (metis takeWhile_dropWhile_id)
  have "last ?r = last (rev ?m)" using pre r by (metis last_appendR)
  then have "hd (strip_with sp s) = hd ?m"
    using r m by (simp add: strip_with_def hd_rev last_rev)
  then show ?thesis using l hm by simp
qed

lemma strip_with_weaker:
  assumes "\<And>c. sp' c \<Longrightarrow> sp c"
  shows "strip_with sp' (strip_with sp s) = strip_with sp s"
proof (cases "strip_with sp s = []")
  case True
  then show ?thesis by (simp add: strip_with_Nil)
next
  case False
  then have "\<not> sp' (hd (strip_with sp s))" "\<not> sp' (last (strip_with sp s))"
    using strip_with_ends[of sp s] assms by auto
  from strip_with_exact[of sp' "[]" "[]" "strip_with sp s", OF _ _ False this]
  show ?thesis by simp
qed

subsection \<open>The digit part\<close>

lemma decimal_ascii:
  "decimal U 95 = None" "decimal U 43 = None" "decimal U 45 = None"
  by (simp_all add: decimal_def)

lemma decimal_not_space: "decimal U c \<noteq> None \<Longrightarrow> \<not> str_isspace U c"
  by (auto simp: decimal_def str_isspace_def split: if_splits uclass.splits)

lemma sign_not_space: "\<not> str_isspace U 43" "\<not> str_isspace U 45"
  by (simp_all add: str_isspace_def)

lemma int_space_is_space: "int_isspace U c \<Longrightarrow> str_isspace U c"
  by (auto simp: int_isspace_def str_isspace_def split: if_splits)

lemma digits_value_fold: "digits_value U s = foldl (digit_step U) 0 s"
  by (simp add: digits_value_def)

lemma digit_count_append: "digit_count U (a @ b) = digit_count U a + digit_count U b"
  by (simp add: digit_count_def)

lemma digits_ok_snoc:
  "digits_ok U b \<Longrightarrow> decimal U c \<noteq> None \<Longrightarrow> digits_ok U (b @ [c])"
  by (induction U b rule: digits_ok.induct) (auto simp: decimal_ascii)

lemma digits_ok_snoc_under:
  "digits_ok U b \<Longrightarrow> decimal U c \<noteq> None \<Longrightarrow> digits_ok U (b @ [95, c])"
  by (induction U b rule: digits_ok.induct) (auto simp: decimal_ascii)

lemma numeral_parses:
  "dec_numeral U b v k \<Longrightarrow> digits_ok U b \<and> digits_value U b = v \<and> digit_count U b = k"
proof (induction rule: dec_numeral.induct)
  case (first c d)
  then show ?case by (simp add: digits_value_fold digit_step_def digit_count_def)
next
  case (digit b v k c d)
  then show ?case
    by (simp add: digits_ok_snoc digits_value_fold digit_step_def digit_count_def)
next
  case (under b v k c d)
  then show ?case
    by (simp add: digits_ok_snoc_under digits_value_fold digit_step_def digit_count_def
          decimal_ascii)
qed

text \<open>A numeral extended by a digit part, directly or after one underscore.\<close>

lemma numeral_extend:
  "digits_ok U b \<Longrightarrow> dec_numeral U p v k \<Longrightarrow>
   dec_numeral U (p @ b) (foldl (digit_step U) v b) (k + digit_count U b)
   \<and> dec_numeral U (p @ 95 # b) (foldl (digit_step U) v b) (k + digit_count U b)"
proof (induction U b arbitrary: p v k rule: digits_ok.induct)
  case (1 U)
  then show ?case by simp
next
  case (2 U c)
  then obtain d where d: "decimal U c = Some d" by auto
  show ?case
    using dec_numeral.digit[OF "2.prems"(2) d] dec_numeral.under[OF "2.prems"(2) d] d
    by (simp add: digit_step_def digit_count_def)
next
  case (3 U c e cs)
  then obtain d where d: "decimal U c = Some d" by auto
  have n1: "dec_numeral U (p @ [c]) (10 * v + d) (k + 1)"
    by (rule dec_numeral.digit[OF "3.prems"(2) d])
  have n2: "dec_numeral U (p @ [95, c]) (10 * v + d) (k + 1)"
    by (rule dec_numeral.under[OF "3.prems"(2) d])
  have cnt: "digit_count U (c # e # cs) = 1 + digit_count U (e # cs)"
    using d by (simp add: digit_count_def)
  have stp: "foldl (digit_step U) v (c # e # cs) = foldl (digit_step U) (10 * v + d) (e # cs)"
    using d by (simp add: digit_step_def)
  show ?case
  proof (cases "e = 95")
    case True
    then have ok: "digits_ok U cs" using "3.prems"(1) by simp
    have e0: "foldl (digit_step U) (10 * v + d) (e # cs) = foldl (digit_step U) (10 * v + d) cs"
      "digit_count U (e # cs) = digit_count U cs"
      using True by (simp_all add: digit_step_def digit_count_def decimal_ascii)
    from "3.IH"(1)[OF True ok n1] "3.IH"(1)[OF True ok n2]
    show ?thesis
      using True cnt stp e0 by (simp add: add.assoc)
  next
    case False
    then have ok: "digits_ok U (e # cs)" using "3.prems"(1) by simp
    from "3.IH"(2)[OF False ok n1] "3.IH"(2)[OF False ok n2]
    show ?thesis
      using cnt stp by (simp add: add.assoc)
  qed
qed

lemma parses_numeral:
  assumes "digits_ok U b"
  shows "dec_numeral U b (digits_value U b) (digit_count U b)"
proof (cases b)
  case Nil
  then show ?thesis using assms by simp
next
  case (Cons c cs)
  then obtain d where d: "decimal U c = Some d"
    using assms by (cases cs) auto
  have n: "dec_numeral U [c] d 1" by (rule dec_numeral.first[OF d])
  show ?thesis
  proof (cases cs)
    case Nil
    then show ?thesis
      using Cons n d by (simp add: digits_value_fold digit_step_def digit_count_def)
  next
    case (Cons e es)
    show ?thesis
    proof (cases "e = 95")
      case True
      then have ok: "digits_ok U es" using assms \<open>b = c # cs\<close> Cons by simp
      from numeral_extend[OF ok n] show ?thesis
        using \<open>b = c # cs\<close> Cons True d
        by (simp add: digits_value_fold digit_step_def digit_count_def decimal_ascii)
    next
      case False
      then have ok: "digits_ok U (e # es)" using assms \<open>b = c # cs\<close> Cons by simp
      from numeral_extend[OF ok n] show ?thesis
        using \<open>b = c # cs\<close> Cons d
        by (simp add: digits_value_fold digit_step_def digit_count_def)
    qed
  qed
qed

lemma numeral_iff:
  "dec_numeral U b v k \<longleftrightarrow> digits_ok U b \<and> digits_value U b = v \<and> digit_count U b = k"
  using numeral_parses parses_numeral by blast

lemma digits_ok_ends:
  "digits_ok U b \<Longrightarrow> b \<noteq> [] \<and> decimal U (hd b) \<noteq> None \<and> decimal U (last b) \<noteq> None"
  by (induction U b rule: digits_ok.induct) (auto split: if_splits)

lemma int_literal_signed: "int_literal U t = Some n \<longleftrightarrow> signed U t n"
proof
  assume a: "int_literal U t = Some n"
  then obtain c cs where t: "t = c # cs" by (cases t) (auto simp: int_literal_def)
  let ?body = "if c = 43 \<or> c = 45 then cs else t"
  have ok: "digits_ok U ?body" "digit_count U ?body \<le> 4300"
    and n: "n = (if c = 45 then - digits_value U ?body else digits_value U ?body)"
    using a t by (auto simp: int_literal_def Let_def int_max_str_digits_def split: if_splits)
  have num: "dec_numeral U ?body (digits_value U ?body) (digit_count U ?body)"
    by (rule parses_numeral[OF ok(1)])
  show "signed U t n"
  proof (cases "c = 43 \<or> c = 45")
    case True
    then have "t = [c] @ cs" using t by simp
    then show ?thesis
      unfolding signed_def using True num ok(2) n by (intro exI[of _ "[c]"] exI[of _ cs]) auto
  next
    case False
    then have "t = [] @ t" by simp
    then show ?thesis
      unfolding signed_def using False num ok(2) n by (intro exI[of _ "[]"] exI[of _ t]) auto
  qed
next
  assume "signed U t n"
  then obtain sign b v k where t: "t = sign @ b"
    and s: "sign = [] \<or> sign = [43] \<or> sign = [45]"
    and num: "dec_numeral U b v k" and k: "k \<le> 4300"
    and n: "n = (if sign = [45] then - v else v)"
    unfolding signed_def by blast
  from numeral_parses[OF num]
  have ok: "digits_ok U b" and v: "digits_value U b = v" and c: "digit_count U b = k"
    by simp_all
  from digits_ok_ends[OF ok] obtain c0 cs0 where b: "b = c0 # cs0" and d0: "decimal U c0 \<noteq> None"
    by (cases b) auto
  have c0: "c0 \<noteq> 43" "c0 \<noteq> 45" using d0 decimal_ascii by auto
  from s show "int_literal U t = Some n"
  proof (elim disjE)
    assume "sign = []"
    then show ?thesis
      using t b c0 ok v c k n by (simp add: int_literal_def int_max_str_digits_def)
  next
    assume "sign = [43]"
    then show ?thesis
      using t ok v c k n by (simp add: int_literal_def int_max_str_digits_def)
  next
    assume "sign = [45]"
    then show ?thesis
      using t ok v c k n by (simp add: int_literal_def int_max_str_digits_def)
  qed
qed

lemma numeric_signed:
  "numeric U field n \<longleftrightarrow>
     (\<exists>ws1 t ws2. field = ws1 @ t @ ws2 \<and> list_all (str_isspace U) ws1
        \<and> list_all (str_isspace U) ws2 \<and> signed U t n)"
  by (simp add: numeric_def)

lemma signed_ends:
  assumes "signed U t n"
  shows "t \<noteq> [] \<and> \<not> str_isspace U (hd t) \<and> \<not> str_isspace U (last t)"
proof -
  from assms obtain sign b v k where t: "t = sign @ b"
    and s: "sign = [] \<or> sign = [43] \<or> sign = [45]" and num: "dec_numeral U b v k"
    unfolding signed_def by blast
  from numeral_parses[OF num] have ok: "digits_ok U b" by simp
  from digits_ok_ends[OF ok]
  have b: "b \<noteq> []" "\<not> str_isspace U (hd b)" "\<not> str_isspace U (last b)"
    using decimal_not_space by auto
  show ?thesis
    using s t b sign_not_space by auto
qed

lemma py_int_strip_numeric:
  "py_int U (py_strip U field) = Some n \<longleftrightarrow> numeric U field n"
proof -
  have same: "strip_with (int_isspace U) (py_strip U field) = py_strip U field"
    unfolding py_strip_def by (rule strip_with_weaker) (rule int_space_is_space)
  have eq: "py_int U (py_strip U field) = Some n \<longleftrightarrow> signed U (py_strip U field) n"
    by (simp add: py_int_def same int_literal_signed)
  show ?thesis
  proof
    assume "py_int U (py_strip U field) = Some n"
    then have sg: "signed U (py_strip U field) n" using eq by simp
    from strip_with_decompose[of field "str_isspace U"]
    obtain ws1 ws2 where "field = ws1 @ py_strip U field @ ws2"
      "list_all (str_isspace U) ws1" "list_all (str_isspace U) ws2"
      unfolding py_strip_def by blast
    then show "numeric U field n" using sg numeric_signed by blast
  next
    assume "numeric U field n"
    then obtain ws1 t ws2 where f: "field = ws1 @ t @ ws2"
      and ws: "list_all (str_isspace U) ws1" "list_all (str_isspace U) ws2"
      and sg: "signed U t n"
      using numeric_signed by blast
    from signed_ends[OF sg] have "py_strip U field = t"
      unfolding py_strip_def f using ws by (intro strip_with_exact) auto
    then show "py_int U (py_strip U field) = Some n" using eq sg by simp
  qed
qed

lemma not_numeric_Nil: "\<not> numeric U [] n"
proof
  assume "numeric U [] n"
  then obtain ws1 t ws2 where e: "[] = ws1 @ t @ ws2" and sg: "signed U t n"
    unfolding numeric_def by blast
  from e have "t = []" by simp
  then show False using signed_ends[OF sg] by simp
qed

lemma py_int_blank: "py_int U (py_strip U []) = None"
proof (cases "py_int U (py_strip U [])")
  case None
  then show ?thesis .
next
  case (Some n)
  then have "numeric U [] n" by (simp only: py_int_strip_numeric)
  then show ?thesis using not_numeric_Nil by blast
qed

lemma try_start_shift_unfold:
  "try_start_shift U emp = Some s \<longleftrightarrow>
     py_int U (py_strip U (or_empty (row_get emp ''starting_shift''))) = Some s \<and> s \<in> {1, 2, 3}"
  unfolding try_start_shift_def Let_def
  by (cases "py_int U (py_strip U (or_empty (row_get emp ''starting_shift'')))") auto

lemma try_start_shift_valid:
  "try_start_shift U emp = Some s \<longleftrightarrow> valid_shift U emp s"
proof (cases "row_get emp ''starting_shift''")
  case None
  then have "or_empty (row_get emp ''starting_shift'') = []" by (simp add: or_empty_def)
  then have "try_start_shift U emp \<noteq> Some s"
    unfolding try_start_shift_unfold by (simp add: py_int_blank)
  moreover have "\<not> valid_shift U emp s" using None by (simp add: valid_shift_def)
  ultimately show ?thesis by simp
next
  case (Some field)
  then have oe: "or_empty (row_get emp ''starting_shift'') = field" by (simp add: or_empty_def)
  have "valid_shift U emp s \<longleftrightarrow> numeric U field s \<and> s \<in> {1, 2, 3}"
    using Some by (simp add: valid_shift_def)
  then show ?thesis
    unfolding try_start_shift_unfold oe py_int_strip_numeric by simp
qed

lemma valid_shift_unique: "valid_shift U emp s \<Longrightarrow> valid_shift U emp s' \<Longrightarrow> s = s'"
  unfolding try_start_shift_valid[symmetric] by simp

lemma needs_fallback_iff: "needs_fallback U emp \<longleftrightarrow> \<not> (\<exists>s. valid_shift U emp s)"
proof (cases "row_get emp ''starting_shift''")
  case None
  then show ?thesis
    by (simp add: needs_fallback_def shift_missing_def valid_shift_def)
next
  case (Some field)
  have uniq: "m = n" if "numeric U field m" "numeric U field n" for m n
    using that unfolding py_int_strip_numeric[symmetric] by simp
  have nf: "needs_fallback U emp \<longleftrightarrow>
              \<not> (\<exists>n. numeric U field n) \<or> (\<exists>n. numeric U field n \<and> n \<notin> {1, 2, 3})"
    using Some
    by (simp add: needs_fallback_def shift_missing_def shift_non_numeric_def
          shift_out_of_range_def)
  have vs: "(\<exists>s. valid_shift U emp s) \<longleftrightarrow> (\<exists>s. numeric U field s \<and> s \<in> {1, 2, 3})"
    using Some by (simp add: valid_shift_def)
  show ?thesis
    unfolding nf vs using uniq by blast
qed

lemma try_start_shift_fallback:
  "try_start_shift U emp = None \<longleftrightarrow> needs_fallback U emp"
proof -
  have "try_start_shift U emp = None \<longleftrightarrow> \<not> (\<exists>s. try_start_shift U emp = Some s)"
    by (cases "try_start_shift U emp") auto
  then show ?thesis
    unfolding needs_fallback_iff try_start_shift_valid .
qed

subsection \<open>The two loops\<close>

lemma read_rows_rows:
  "read_rows acc (map Row rows) =
     (if \<exists>r\<in>set rows. missing_required r
      then Inl (ValueError ''employees.csv must contain emp_id and employee_name'')
      else Inr (acc @ rows))"
  by (induction rows arbitrary: acc) auto

lemma shift_loop_acc: "shift_loop U acc cur emps = acc @ shift_loop U [] cur emps"
proof (induction emps arbitrary: acc cur)
  case Nil
  then show ?case by simp
next
  case (Cons a emps)
  show ?case
    using Cons.IH[of "acc @ [_]"] Cons.IH[of "[_]"]
    by (simp split: option.splits)
qed

lemma shift_loop_length: "length (shift_loop U acc cur emps) = length acc + length emps"
  by (induction emps arbitrary: acc cur) (auto split: option.splits)

lemma cur_step: "1 + (1 + int (k mod 3)) mod 3 = 1 + int (Suc k mod 3)"
proof -
  have "(1 + int (k mod 3)) mod 3 = int (Suc k mod 3)"
    by (simp add: zmod_int mod_simps)
  then show ?thesis by simp
qed

lemma fallbacks_before_Cons:
  "fallbacks_before U (emp # emps) (Suc j) =
     (if needs_fallback U emp then Suc (fallbacks_before U emps j) else fallbacks_before U emps j)"
  by (simp add: fallbacks_before_def)

text \<open>
  The loop invariant: when \<open>cur\<close> is \<open>1 + k mod 3\<close>, the employee at position \<open>i\<close> keeps
  a valid shift or gets the shift \<open>k\<close> plus the number of earlier fallbacks, modulo 3.
\<close>

lemma shift_loop_nth:
  "i < length emps \<Longrightarrow>
   shift_loop U [] (1 + int (k mod 3)) emps ! i =
     (case try_start_shift U (emps ! i) of
        Some s \<Rightarrow> s - 1
      | None \<Rightarrow> int ((k + fallbacks_before U emps i) mod 3))"
proof (induction emps arbitrary: k i)
  case Nil
  then show ?case by simp
next
  case (Cons emp emps)
  show ?case
  proof (cases "try_start_shift U emp")
    case None
    then have nf: "needs_fallback U emp" by (simp add: try_start_shift_fallback)
    have step: "shift_loop U [] (1 + int (k mod 3)) (emp # emps) =
                int (k mod 3) # shift_loop U [] (1 + int (Suc k mod 3)) emps"
      using None shift_loop_acc[of U "[int (k mod 3)]"] by (simp add: cur_step)
    show ?thesis
    proof (cases i)
      case 0
      then show ?thesis using None step by (simp add: fallbacks_before_def)
    next
      case (Suc j)
      then have "j < length emps" using Cons.prems by simp
      from Cons.IH[OF this, of "Suc k"] show ?thesis
        unfolding Suc using step nf
        by (simp add: fallbacks_before_Cons split: option.splits)
    qed
  next
    case (Some s)
    then have nf: "\<not> needs_fallback U emp"
      using try_start_shift_fallback[of U emp] by simp
    have step: "shift_loop U [] (1 + int (k mod 3)) (emp # emps) =
                (s - 1) # shift_loop U [] (1 + int (k mod 3)) emps"
      using Some shift_loop_acc[of U "[s - 1]"] by simp
    show ?thesis
    proof (cases i)
      case 0
      then show ?thesis using Some step by simp
    next
      case (Suc j)
      then have "j < length emps" using Cons.prems by simp
      from Cons.IH[OF this, of k] show ?thesis
        unfolding Suc using step nf
        by (simp add: fallbacks_before_Cons split: option.splits)
    qed
  qed
qed

lemma load_employees_rows:
  assumes "rows \<noteq> []" and "\<forall>r\<in>set rows. \<not> missing_required r"
  shows "load_employees U (map Row rows) = Inr (rows, shift_loop U [] 1 rows)"
  using assms by (simp add: load_employees_def read_rows_rows)

lemma start_shift_valid:
  assumes "i < length rows" "valid_shift U (rows ! i) s"
  shows "shift_loop U [] 1 rows ! i + 1 = s"
proof -
  have "try_start_shift U (rows ! i) = Some s"
    using assms(2) by (simp add: try_start_shift_valid)
  then show ?thesis using shift_loop_nth[OF assms(1), of U 0] by simp
qed

lemma start_shift_fallback:
  assumes "i < length rows" "needs_fallback U (rows ! i)"
  shows "shift_loop U [] 1 rows ! i + 1 = 1 + int (fallbacks_before U rows i mod 3)"
proof -
  have "try_start_shift U (rows ! i) = None"
    using assms(2) by (simp add: try_start_shift_fallback)
  then show ?thesis using shift_loop_nth[OF assms(1), of U 0] by simp
qed

text \<open>
  C6: an employee list in which every row has its \<open>emp_id\<close> and \<open>employee_name\<close> loads,
  whatever the \<open>starting_shift\<close> values are. Every employee either has a valid shift (the
  field is numeric and its value is 1, 2 or 3) and keeps it, or needs the fallback (the
  field is missing, not numeric, or numeric with another value) and gets 1, 2, 3, 1, 2, 3,
  ... in encounter order, the cycle advancing only on such employees: the one with \<open>k\<close>
  fallbacks before it gets \<open>1 + k mod 3\<close>. (The list holds the shifts 0-based, hence the
  \<open>+ 1\<close>.)
\<close>

theorem load_employees_round_robin:
  assumes "rows \<noteq> []" and "\<forall>r\<in>set rows. \<not> missing_required r"
  shows "\<exists>start_shifts. load_employees U (map Row rows) = Inr (rows, start_shifts)
           \<and> length start_shifts = length rows
           \<and> (\<forall>i<length rows.
                 (needs_fallback U (rows ! i) \<or> (\<exists>s. valid_shift U (rows ! i) s))
               \<and> (\<forall>s. valid_shift U (rows ! i) s \<longrightarrow> start_shifts ! i + 1 = s)
               \<and> (needs_fallback U (rows ! i) \<longrightarrow>
                    start_shifts ! i + 1 = 1 + int (fallbacks_before U rows i mod 3)))"
proof (intro exI conjI allI impI)
  show "load_employees U (map Row rows) = Inr (rows, shift_loop U [] 1 rows)"
    by (rule load_employees_rows[OF assms])
  show "length (shift_loop U [] 1 rows) = length rows"
    by (simp add: shift_loop_length)
next
  fix i assume "i < length rows"
  show "needs_fallback U (rows ! i) \<or> (\<exists>s. valid_shift U (rows ! i) s)"
    unfolding needs_fallback_iff by blast
next
  fix i s assume "i < length rows" "valid_shift U (rows ! i) s"
  then show "shift_loop U [] 1 rows ! i + 1 = s" by (rule start_shift_valid)
next
  fix i assume "i < length rows" "needs_fallback U (rows ! i)"
  then show "shift_loop U [] 1 rows ! i + 1 = 1 + int (fallbacks_before U rows i mod 3)"
    by (rule start_shift_fallback)
qed

lemma mixed_rows_ok: "mixed_rows \<noteq> [] \<and> (\<forall>r\<in>set mixed_rows. \<not> missing_required r)"
proof -
  have "list_all (\<lambda>r. \<not> missing_required r) mixed_rows" by code_simp
  moreover have "mixed_rows \<noteq> []" by (simp add: mixed_rows_def)
  ultimately show ?thesis by (simp add: list_all_iff)
qed

lemma mixed_rows_run:
  "load_employees ucd_sample (map Row mixed_rows) = Inr (mixed_rows, [1, 0, 1, 2, 2, 0, 1, 2, 0])"
  by code_simp

lemma mixed_rows_tries:
  "try_start_shift ucd_sample (mixed_rows ! 0) = Some 2"
  "try_start_shift ucd_sample (mixed_rows ! 1) = None"
  "try_start_shift ucd_sample (mixed_rows ! 2) = None"
  "try_start_shift ucd_sample (mixed_rows ! 3) = Some 3"
  "try_start_shift ucd_sample (mixed_rows ! 5) = None"
  by code_simp+


lemma digit_count_zeros: "digit_count U (replicate n 48 @ [50]) = int n + 1"
  by (simp add: digit_count_def decimal_def)

lemma int_literal_too_long:
  "t \<noteq> [] \<Longrightarrow> hd t \<noteq> 43 \<Longrightarrow> hd t \<noteq> 45 \<Longrightarrow> 4300 < digit_count U t \<Longrightarrow>
   int_literal U t = None"
  by (cases t) (simp_all add: int_literal_def int_max_str_digits_def)

lemma long_numeral_falls_back:
  "try_start_shift U [(lit ''starting_shift'', replicate 4300 48 @ [50])] = None"
proof -
  let ?t = "replicate 4300 48 @ [50]"
  have hd: "hd ?t = 48" by (simp add: hd_append)
  have ns: "\<not> str_isspace U 48" "\<not> str_isspace U 50" by (simp_all add: str_isspace_def)
  have "strip_with (str_isspace U) ([] @ ?t @ []) = ?t"
    by (rule strip_with_exact) (simp_all add: hd ns)
  then have st: "py_strip U ?t = ?t" by (simp add: py_strip_def)
  have "strip_with (int_isspace U) (py_strip U ?t) = py_strip U ?t"
    unfolding py_strip_def by (rule strip_with_weaker) (rule int_space_is_space)
  then have pi: "py_int U ?t = int_literal U ?t" by (simp add: py_int_def st)
  have "digit_count U ?t = 4301" using digit_count_zeros[of U 4300] by simp
  then have "int_literal U ?t = None"
    by (intro int_literal_too_long) (simp_all add: hd)
  then show ?thesis
    by (simp add: try_start_shift_def row_get_def or_empty_def st pi)
qed

text \<open>
  C5, the claim as stated: loading an employee list in which some employee's
  \<open>starting_shift\<close> is present but not 1, 2 or 3 is a fatal validation error. It is not:
  the list with the one value \<open>9\<close> loads, and the employee gets the first fallback shift.
\<close>

theorem load_employees_nine_loads:
  "load_employees ucd_sample (map Row rows_with_nine) = Inr (rows_with_nine, [0])"
  by code_simp

lemma main_stop_before_start:
  "stop_date < start_date \<Longrightarrow>
   main U solver start_date stop_date min_per_shift max_off_pct csv =
     Inl (ValueError ''stop-date must be >= start-date'')"
  by (simp add: main_def)

lemma main_load_error:
  "\<not> stop_date < start_date \<Longrightarrow> load_employees U csv = Inl err \<Longrightarrow>
   main U solver start_date stop_date min_per_shift max_off_pct csv = Inl err"
  by (simp add: main_def)

lemma load_employees_missing:
  "\<exists>r\<in>set rows. missing_required r \<Longrightarrow>
   load_employees U (map Row rows) =
     Inl (ValueError ''employees.csv must contain emp_id and employee_name'')"
  by (simp add: load_employees_def read_rows_rows)

lemma load_employees_empty:
  "load_employees U [] = Inl (ValueError ''employees.csv is empty'')"
  by (simp add: load_employees_def)

text \<open>
  C5, amended: the input validation errors that the code detects (a stop date before the
  start date, an employee row without \<open>emp_id\<close> or \<open>employee_name\<close>, an empty employee
  list) are fatal to the run before the model is built, whatever the solver would answer,
  each with its own message naming what is wrong. A \<open>starting_shift\<close> that is missing,
  not numeric or not 1, 2 or 3 is not among them: the list loads and that employee gets
  the next round-robin fallback shift.
\<close>

theorem validation_errors:
  "(stop_date < start_date \<longrightarrow>
      main U solver start_date stop_date min_per_shift max_off_pct csv =
        Inl (ValueError ''stop-date must be >= start-date''))
   \<and> (\<not> stop_date < start_date \<and> (\<exists>r\<in>set rows. missing_required r) \<longrightarrow>
      main U solver start_date stop_date min_per_shift max_off_pct (map Row rows) =
        Inl (ValueError ''employees.csv must contain emp_id and employee_name''))
   \<and> (\<not> stop_date < start_date \<longrightarrow>
      main U solver start_date stop_date min_per_shift max_off_pct [] =
        Inl (ValueError ''employees.csv is empty''))
   \<and> (rows \<noteq> [] \<and> (\<forall>r\<in>set rows. \<not> missing_required r) \<and> i < length rows
        \<and> needs_fallback U (rows ! i) \<longrightarrow>
      (\<exists>start_shifts. load_employees U (map Row rows) = Inr (rows, start_shifts)
         \<and> start_shifts ! i + 1 = 1 + int (fallbacks_before U rows i mod 3)))"
proof (intro conjI impI)
  assume "stop_date < start_date"
  then show "main U solver start_date stop_date min_per_shift max_off_pct csv =
        Inl (ValueError ''stop-date must be >= start-date'')"
    by (rule main_stop_before_start)
next
  assume a: "\<not> stop_date < start_date \<and> (\<exists>r\<in>set rows. missing_required r)"
  then show "main U solver start_date stop_date min_per_shift max_off_pct (map Row rows) =
        Inl (ValueError ''employees.csv must contain emp_id and employee_name'')"
    using main_load_error load_employees_missing by blast
next
  assume "\<not> stop_date < start_date"
  then show "main U solver start_date stop_date min_per_shift max_off_pct [] =
        Inl (ValueError ''employees.csv is empty'')"
    using main_load_error load_employees_empty by blast
next
  assume a: "rows \<noteq> [] \<and> (\<forall>r\<in>set rows. \<not> missing_required r) \<and> i < length rows
        \<and> needs_fallback U (rows ! i)"
  then have "load_employees U (map Row rows) = Inr (rows, shift_loop U [] 1 rows)"
    using load_employees_rows by blast
  moreover have "shift_loop U [] 1 rows ! i + 1 = 1 + int (fallbacks_before U rows i mod 3)"
    using a start_shift_fallback by blast
  ultimately show "\<exists>start_shifts. load_employees U (map Row rows) = Inr (rows, start_shifts)
         \<and> start_shifts ! i + 1 = 1 + int (fallbacks_before U rows i mod 3)"
    by blast
qed

lemma nameless_rows_missing: "\<exists>r\<in>set nameless_rows. missing_required r"
proof -
  have "\<not> list_all (\<lambda>r. \<not> missing_required r) nameless_rows" by code_simp
  then show ?thesis by (simp add: list_all_iff)
qed

lemma rows_with_nine_ok:
  "rows_with_nine \<noteq> [] \<and> (\<forall>r\<in>set rows_with_nine. \<not> missing_required r)
   \<and> 0 < length rows_with_nine"
proof -
  have "list_all (\<lambda>r. \<not> missing_required r) rows_with_nine" by code_simp
  then show ?thesis by (simp add: list_all_iff rows_with_nine_def)
qed

lemma nine_out_of_range: "shift_out_of_range ucd_sample (rows_with_nine ! 0)"
proof -
  have g: "row_get (rows_with_nine ! 0) ''starting_shift'' = Some [57]" by code_simp
  have "py_int ucd_sample (py_strip ucd_sample [57]) = Some 9" by code_simp
  then have "numeric ucd_sample [57] 9" by (simp only: py_int_strip_numeric)
  then show ?thesis
    unfolding shift_out_of_range_def using g by (intro exI[of _ "[57]"] exI[of _ 9]) simp
qed

theorem validation_errors_witness:
  "main ucd_sample demo_solver 738890 738887 1 float_0_30 (map Row nameless_rows) =
     Inl (ValueError ''stop-date must be >= start-date'')
   \<and> main ucd_sample demo_solver 738887 738890 1 float_0_30 (map Row nameless_rows) =
       Inl (ValueError ''employees.csv must contain emp_id and employee_name'')
   \<and> main ucd_sample demo_solver 738887 738890 1 float_0_30 [] =
       Inl (ValueError ''employees.csv is empty'')
   \<and> shift_out_of_range ucd_sample (rows_with_nine ! 0)
   \<and> (\<exists>start_shifts.
         load_employees ucd_sample (map Row rows_with_nine) = Inr (rows_with_nine, start_shifts)
       \<and> start_shifts ! 0 + 1 = 1 + int (fallbacks_before ucd_sample rows_with_nine 0 mod 3))"
proof -
  have nf: "needs_fallback ucd_sample (rows_with_nine ! 0)"
    using nine_out_of_range by (simp add: needs_fallback_def)
  have lt: "(738890::int) < 738887 \<longleftrightarrow> False" "(738887::int) < 738890" by simp_all
  show ?thesis
    using validation_errors[of 738887 738890 ucd_sample demo_solver 1 float_0_30
            "map Row nameless_rows" nameless_rows 0]
      validation_errors[of 738890 738887 ucd_sample demo_solver 1 float_0_30
            "[]" nameless_rows 0]
      validation_errors[of 738890 738887 ucd_sample demo_solver 1 float_0_30
            "[]" rows_with_nine 0]
      nameless_rows_missing rows_with_nine_ok nf nine_out_of_range
    by simp
qed

theorem load_employees_round_robin_witness:
  "mixed_rows \<noteq> [] \<and> \<not> (\<exists>r\<in>set mixed_rows. missing_required r)
   \<and> load_employees ucd_sample (map Row mixed_rows) =
       Inr (mixed_rows, [1, 0, 1, 2, 2, 0, 1, 2, 0])
   \<and> valid_shift ucd_sample (mixed_rows ! 0) 2
   \<and> needs_fallback ucd_sample (mixed_rows ! 1)
   \<and> needs_fallback ucd_sample (mixed_rows ! 2)
   \<and> valid_shift ucd_sample (mixed_rows ! 3) 3
   \<and> needs_fallback ucd_sample (mixed_rows ! 5)
   \<and> (\<exists>start_shifts. load_employees ucd_sample (map Row mixed_rows) = Inr (mixed_rows, start_shifts)
         \<and> length start_shifts = length mixed_rows
         \<and> (\<forall>i<length mixed_rows.
               (needs_fallback ucd_sample (mixed_rows ! i)
                  \<or> (\<exists>s. valid_shift ucd_sample (mixed_rows ! i) s))
             \<and> (\<forall>s. valid_shift ucd_sample (mixed_rows ! i) s \<longrightarrow> start_shifts ! i + 1 = s)
             \<and> (needs_fallback ucd_sample (mixed_rows ! i) \<longrightarrow>
                  start_shifts ! i + 1 = 1 + int (fallbacks_before ucd_sample mixed_rows i mod 3))))"
proof -
  have ok: "mixed_rows \<noteq> []" "\<forall>r\<in>set mixed_rows. \<not> missing_required r"
    using mixed_rows_ok by simp_all
  have cls: "valid_shift ucd_sample (mixed_rows ! 0) 2"
    "needs_fallback ucd_sample (mixed_rows ! 1)"
    "needs_fallback ucd_sample (mixed_rows ! 2)"
    "valid_shift ucd_sample (mixed_rows ! 3) 3"
    "needs_fallback ucd_sample (mixed_rows ! 5)"
    using mixed_rows_tries
    by (simp_all only: try_start_shift_valid[symmetric] try_start_shift_fallback[symmetric])
  from load_employees_round_robin[OF ok, of ucd_sample] ok mixed_rows_run cls
  show ?thesis by blast
qed

section \<open>Properties of \<open>solve\<close>\<close>

subsection \<open>The model, constraint by constraint\<close>
























subsection \<open>What a solution satisfies\<close>







subsection \<open>The extracted codes\<close>







subsection \<open>The rest matrix\<close>




subsection \<open>Rounding to a double\<close>






















subsection \<open>Schedules returned by \<open>solve\<close>\<close>









subsection \<open>The demo run\<close>








subsection \<open>The objective\<close>















subsection \<open>Weights\<close>
















subsection \<open>Failure\<close>















end
